theory Spec2Isabelle
  imports Main
begin

section \<open>Values, exceptions and observable events\<close>

text \<open>
  The monitor of \<^verbatim>\<open>src/main.py\<close> passes untyped Python objects between its stages: the
  contract is a dictionary read with string keys, the analysis is whatever the parser or
  the fusion step hands back (possibly \<^verbatim>\<open>None\<close>), the verification result is a dictionary
  literal. \<open>pyval\<close> is the fragment of Python's object universe those stages can tell
  apart. A dictionary keeps its items in insertion order; \<open>PObj\<close> stands for an object of
  any other class (an API response, an attachment handle).
\<close>

datatype pyval =
    PNone
  | PBool bool
  | PInt int
  | PStr string
  | PList "pyval list"
  | PDict "(string \<times> pyval) list"
  | PObj nat

text \<open>
  Exceptions. \<^verbatim>\<open>except Exception\<close> of \<^verbatim>\<open>base_analysis\<close> catches every class deriving from
  \<^verbatim>\<open>Exception\<close>; task cancellation, \<^verbatim>\<open>KeyboardInterrupt\<close> and \<^verbatim>\<open>SystemExit\<close> derive from
  \<^verbatim>\<open>BaseException\<close> only and pass through it.
\<close>

datatype exn =
    KeyError string
  | TypeError
  | ServiceError string
  | Cancelled

fun is_Exception :: "exn \<Rightarrow> bool" where
  "is_Exception Cancelled = False"
| "is_Exception _ = True"

text \<open>
  What a run does to the outside world, in the order it does it: the three store
  commands, every call that leaves the class (or enters one of its stages), the retry log
  line and the back-off sleep with its duration in seconds.
\<close>

datatype event =
    RedisExists pyval
  | RedisSetex pyval nat pyval
  | RedisDelete pyval
  | SafetyCheck pyval
  | MarketContext
  | DeepseekCreate pyval
  | LogRetry nat exn
  | Sleep nat
  | CrossValidate pyval pyval
  | CheckDevExpertise pyval
  | VerifyMarketHype pyval
  | SimulateTrading pyval
  | FusionResults pyval pyval
  | GenerateVisualReport pyval pyval
  | PushAlert pyval
  | SendPhoto pyval pyval string string

text \<open>\<^verbatim>\<open>obj[key]\<close> with a string key: only a dictionary that has the key answers.\<close>

fun subscript :: "pyval \<Rightarrow> string \<Rightarrow> exn + pyval" where
  "subscript (PDict kvs) k = (case map_of kvs k of Some v \<Rightarrow> Inr v | None \<Rightarrow> Inl (KeyError k))"
| "subscript _ k = Inl TypeError"

text \<open>Truth value testing, as \<^verbatim>\<open>if\<close> and \<^verbatim>\<open>not\<close> apply it.\<close>

fun truthy :: "pyval \<Rightarrow> bool" where
  "truthy PNone = False"
| "truthy (PBool b) = b"
| "truthy (PInt i) = (i \<noteq> 0)"
| "truthy (PStr s) = (s \<noteq> [])"
| "truthy (PList xs) = (xs \<noteq> [])"
| "truthy (PDict kvs) = (kvs \<noteq> [])"
| "truthy (PObj n) = True"

section \<open>The collaborators of \<open>TokenMonitor\<close>\<close>

text \<open>
  \<^verbatim>\<open>TokenMonitor\<close> calls the completion client, the messaging client, the \<^verbatim>\<open>asyncio\<close>
  scheduler, a few built-ins (\<^verbatim>\<open>str.format\<close>, the formatting of a value inside an
  f-string, \<^verbatim>\<open>os.getenv\<close>) and eight methods of its own that the file does not define
  (\<^verbatim>\<open>gmgn_safety_check\<close>, \<^verbatim>\<open>get_market_context\<close>, \<^verbatim>\<open>parse_response\<close>,
  \<^verbatim>\<open>check_dev_expertise\<close>, \<^verbatim>\<open>verify_market_hype\<close>, \<^verbatim>\<open>simulate_trading\<close>,
  \<^verbatim>\<open>fusion_results\<close>, \<^verbatim>\<open>generate_visual_report\<close>). Their answers are the parameters of
  the model: each is a value or a raised exception. The completion service is asked up to
  three times in one run, so its answer depends on the index of the attempt;
  \<open>format_template\<close> is \<^verbatim>\<open>self.analysis_template.format\<close> with the template that the
  constructor loaded. None of these collaborators touches the deduplication store.
\<close>

record env =
  gmgn_safety_check :: "pyval \<Rightarrow> exn + pyval"
  get_market_context :: "exn + pyval"
  format_template :: "pyval \<Rightarrow> pyval \<Rightarrow> exn + string"
  deepseek_create :: "nat \<Rightarrow> pyval \<Rightarrow> exn + pyval"
  parse_response :: "pyval \<Rightarrow> exn + pyval"
  check_dev_expertise :: "pyval \<Rightarrow> exn + pyval"
  verify_market_hype :: "pyval \<Rightarrow> exn + pyval"
  simulate_trading :: "pyval \<Rightarrow> exn + pyval"
  gather_order :: "nat list"
  fusion_results :: "pyval \<Rightarrow> pyval \<Rightarrow> exn + pyval"
  generate_visual_report :: "pyval \<Rightarrow> pyval \<Rightarrow> exn + pyval"
  input_file :: "pyval \<Rightarrow> exn + pyval"
  format_value :: "pyval \<Rightarrow> string"
  tg_chat_id :: pyval
  send_photo :: "pyval \<Rightarrow> pyval \<Rightarrow> string \<Rightarrow> string \<Rightarrow> exn + pyval"

section \<open>Stages that do not touch the store\<close>

text \<open>
  A stage returns its outcome together with the events it produced. \<open>io_bind\<close> is
  sequential composition: an exception of the first part ends the stage and keeps the
  events so far.
\<close>

type_synonym 'a io = "(exn + 'a) \<times> event list"

definition ret :: "'a \<Rightarrow> 'a io" where
  "ret x = (Inr x, [])"

definition lift :: "exn + 'a \<Rightarrow> 'a io" where
  "lift r = (r, [])"

definition call :: "event \<Rightarrow> exn + 'a \<Rightarrow> 'a io" where
  "call ev r = (r, [ev])"

definition io_bind :: "'a io \<Rightarrow> ('a \<Rightarrow> 'b io) \<Rightarrow> 'b io" where
  "io_bind m f =
     (case m of
        (Inl e, evs) \<Rightarrow> (Inl e, evs)
      | (Inr x, evs) \<Rightarrow> (case f x of (r, evs') \<Rightarrow> (r, evs @ evs')))"

subsection \<open>\<open>base_analysis\<close>\<close>

text \<open>The keyword arguments of \<^verbatim>\<open>chat.completions.create\<close>.\<close>

definition completion_request :: "string \<Rightarrow> pyval" where
  "completion_request prompt =
     PDict [(''model'', PStr ''deepseek-chat-32k''),
            (''messages'', PList [PDict [(''role'', PStr ''user''), (''content'', PStr prompt)]]),
            (''response_format'', PDict [(''type'', PStr ''json_object'')])]"

text \<open>The body of the \<^verbatim>\<open>try\<close>: the request, then the parse of its response.\<close>

definition attempt :: "env \<Rightarrow> string \<Rightarrow> nat \<Rightarrow> exn + pyval" where
  "attempt env prompt retry =
     (case deepseek_create env retry (completion_request prompt) of
        Inl e \<Rightarrow> Inl e
      | Inr response \<Rightarrow> parse_response env response)"

text \<open>
  \<^verbatim>\<open>for retry in range(3)\<close> over the remaining indices: a caught exception is logged with
  \<open>retry + 1\<close>, followed by a sleep of \<open>2 ^ retry\<close> seconds, and the loop goes on; an
  exhausted range falls through to \<^verbatim>\<open>return None\<close>.
\<close>

fun retry_loop :: "env \<Rightarrow> string \<Rightarrow> nat list \<Rightarrow> pyval io" where
  "retry_loop env prompt [] = ret PNone"
| "retry_loop env prompt (retry # rest) =
     (case attempt env prompt retry of
        Inr a \<Rightarrow> (Inr a, [DeepseekCreate (completion_request prompt)])
      | Inl e \<Rightarrow>
          if is_Exception e
          then (case retry_loop env prompt rest of
                  (r, evs) \<Rightarrow>
                    (r, [DeepseekCreate (completion_request prompt),
                         LogRetry (retry + 1) e, Sleep (2 ^ retry)] @ evs))
          else (Inl e, [DeepseekCreate (completion_request prompt)]))"

definition base_analysis :: "env \<Rightarrow> pyval \<Rightarrow> pyval io" where
  "base_analysis env contract =
     io_bind (call MarketContext (get_market_context env)) (\<lambda>market_data.
     io_bind (lift (format_template env contract market_data)) (\<lambda>prompt.
     retry_loop env prompt [0..<3]))"

subsection \<open>\<open>cross_validate\<close>\<close>

text \<open>
  \<^verbatim>\<open>asyncio.gather\<close> without \<^verbatim>\<open>return_exceptions\<close>: the results in the order of the
  awaitables when all of them return, else the exception of the task that fails first;
  \<open>order\<close> is the order in which the scheduler lets the tasks finish.
\<close>

definition gather :: "nat list \<Rightarrow> (exn + pyval) list \<Rightarrow> exn + pyval list" where
  "gather order outs =
     (case filter (\<lambda>i. i < length outs \<and> isl (outs ! i)) (order @ [0..<length outs]) of
        [] \<Rightarrow> Inr (map projr outs)
      | i # _ \<Rightarrow> Inl (projl (outs ! i)))"

text \<open>
  The first event records the call of \<open>cross_validate\<close> with its two arguments. The task
  list is built left to right, each field of the contract being read before its coroutine
  is created, so a missing field raises before any check has started; \<open>gather\<close> then
  starts the three checks in the order of the list. Its result has one entry for each
  task, so the three positions read below exist.
\<close>

definition cross_validate :: "env \<Rightarrow> pyval \<Rightarrow> pyval \<Rightarrow> pyval io" where
  "cross_validate env contract analysis =
     io_bind (call (CrossValidate contract analysis) (subscript contract ''dev_address'')) (\<lambda>dev.
     io_bind (lift (subscript contract ''symbol'')) (\<lambda>symbol.
     io_bind (lift (subscript contract ''liquidity'')) (\<lambda>liquidity.
     io_bind (gather (gather_order env)
                [check_dev_expertise env dev, verify_market_hype env symbol,
                 simulate_trading env liquidity],
              [CheckDevExpertise dev, VerifyMarketHype symbol, SimulateTrading liquidity])
       (\<lambda>results.
     ret (PDict [(''dev_skill'', results ! 0),
                 (''hype_index'', results ! 1),
                 (''volatility'', results ! 2)])))))"

subsection \<open>\<open>enhanced_analysis\<close>\<close>

definition enhanced_analysis :: "env \<Rightarrow> pyval \<Rightarrow> pyval io" where
  "enhanced_analysis env contract =
     io_bind (base_analysis env contract) (\<lambda>analysis.
     io_bind (cross_validate env contract analysis) (\<lambda>verification.
     call (FusionResults analysis verification) (fusion_results env analysis verification)))"

subsection \<open>\<open>push_alert\<close>\<close>

text \<open>
  The caption is the f-string of the source with the formatted \<^verbatim>\<open>report['text']\<close> in
  its hole. Its decoration has code points beyond ASCII, given here as their UTF-8 bytes.
\<close>

definition caption :: "string \<Rightarrow> string" where
  "caption text =
     [CHR 0x0A, CHR 0xF0, CHR 0x9F, CHR 0x93, CHR 0x88] @ '' **DeepSeek'' @
     [CHR 0xE7, CHR 0xB2, CHR 0xBE, CHR 0xE9, CHR 0x80, CHR 0x89,
      CHR 0xE8, CHR 0xAD, CHR 0xA6, CHR 0xE6, CHR 0x8A, CHR 0xA5] @ ''** '' @
     [CHR 0xF0, CHR 0x9F, CHR 0x93, CHR 0x89, CHR 0x0A] @ text @
     [CHR 0x0A] @ ''        ''"

text \<open>
  The first event records the call of \<open>push_alert\<close> with the report; the last one is the
  request to the messaging client.
\<close>

definition push_alert :: "env \<Rightarrow> pyval \<Rightarrow> unit io" where
  "push_alert env report =
     io_bind (call (PushAlert report) (subscript report ''chart'')) (\<lambda>chart_src.
     io_bind (lift (input_file env chart_src)) (\<lambda>chart.
     io_bind (lift (subscript report ''text'')) (\<lambda>text.
     io_bind (call (SendPhoto (tg_chat_id env) chart (caption (format_value env text)) ''MarkdownV2'')
                (send_photo env (tg_chat_id env) chart (caption (format_value env text))
                   ''MarkdownV2''))
       (\<lambda>_. ret ()))))"

section \<open>The deduplication store and \<open>process_contract\<close>\<close>

text \<open>
  Modelled from the spec: the store behind \<^verbatim>\<open>self.redis\<close> (the Redis client is a library,
  not part of the source). It maps a key to its value and the time-to-live it was stored
  with, and offers the three operations the specification lists: \<open>exists\<close> answers with
  the number of keys found, \<open>setex\<close> stores, \<open>delete\<close> removes. The commands do not
  fail. The passing of time, and with it the expiry of a marker in the middle of a run, is
  outside the model.
\<close>

record world =
  store :: "pyval \<rightharpoonup> pyval \<times> nat"
  trace :: "event list"

definition emit :: "event list \<Rightarrow> world \<Rightarrow> world" where
  "emit evs w = w\<lparr>trace := trace w @ evs\<rparr>"

definition redis_exists :: "pyval \<Rightarrow> world \<Rightarrow> pyval \<times> world" where
  "redis_exists k w = (PInt (if store w k = None then 0 else 1), emit [RedisExists k] w)"

definition redis_setex :: "pyval \<Rightarrow> nat \<Rightarrow> pyval \<Rightarrow> world \<Rightarrow> world" where
  "redis_setex k ttl v w = emit [RedisSetex k ttl v] (w\<lparr>store := (store w)(k \<mapsto> (v, ttl))\<rparr>)"

definition redis_delete :: "pyval \<Rightarrow> world \<Rightarrow> world" where
  "redis_delete k w = emit [RedisDelete k] (w\<lparr>store := (store w)(k := None)\<rparr>)"

text \<open>\<^verbatim>\<open>self.investment_grade\<close>, set once by the constructor.\<close>

definition investment_grade :: "pyval list" where
  "investment_grade = [PStr ''A+'', PStr ''A'', PStr ''B+'']"

text \<open>The body of the \<^verbatim>\<open>try\<close> statement; every \<^verbatim>\<open>return\<close> of it returns \<^verbatim>\<open>None\<close>.\<close>

definition process_body :: "env \<Rightarrow> pyval \<Rightarrow> unit io" where
  "process_body env contract =
     io_bind (call (SafetyCheck contract) (gmgn_safety_check env contract)) (\<lambda>safe.
     if \<not> truthy safe then ret ()
     else
       io_bind (enhanced_analysis env contract) (\<lambda>analysis.
       io_bind (lift (subscript analysis ''grade'')) (\<lambda>grade.
       if grade \<notin> set investment_grade then ret ()
       else
         io_bind (call (GenerateVisualReport contract analysis)
                    (generate_visual_report env contract analysis)) (\<lambda>report.
         push_alert env report))))"

text \<open>
  The \<^verbatim>\<open>finally\<close> clause: \<^verbatim>\<open>self.redis.delete(contract['address'])\<close>. It runs however the
  body ended; an exception of its own would replace the body's outcome.
\<close>

definition cleanup :: "pyval \<Rightarrow> world \<Rightarrow> (exn + unit) \<times> world" where
  "cleanup contract w =
     (case subscript contract ''address'' of
        Inl e \<Rightarrow> (Inl e, w)
      | Inr address \<Rightarrow> (Inr (), redis_delete address w))"

definition try_finally :: "unit io \<Rightarrow> (world \<Rightarrow> (exn + unit) \<times> world) \<Rightarrow> world \<Rightarrow> (exn + unit) \<times> world" where
  "try_finally body final w =
     (case body of
        (r, evs) \<Rightarrow>
          (case final (emit evs w) of
             (Inl e, w') \<Rightarrow> (Inl e, w')
           | (Inr _, w') \<Rightarrow> (r, w')))"

definition process_contract :: "env \<Rightarrow> pyval \<Rightarrow> world \<Rightarrow> (exn + unit) \<times> world" where
  "process_contract env contract w =
     (case subscript contract ''address'' of
        Inl e \<Rightarrow> (Inl e, w)
      | Inr address \<Rightarrow>
          (case redis_exists address w of
             (found, w1) \<Rightarrow>
               if truthy found then (Inr (), w1)
               else
                 (case subscript contract ''address'' of
                    Inl e \<Rightarrow> (Inl e, w1)
                  | Inr address' \<Rightarrow>
                      try_finally (process_body env contract) (cleanup contract)
                        (redis_setex address' 600 (PStr ''processing'') w1))))"

text \<open>The events a run adds to a trace that had \<open>n\<close> events before it.\<close>

definition new_events :: "nat \<Rightarrow> world \<Rightarrow> event list" where
  "new_events n w = drop n (trace w)"

text \<open>The events that show an alert being pushed, and those of the analysis stage.\<close>

fun is_push :: "event \<Rightarrow> bool" where
  "is_push (PushAlert _) = True"
| "is_push (SendPhoto _ _ _ _) = True"
| "is_push _ = False"

fun is_attempt :: "event \<Rightarrow> bool" where
  "is_attempt (DeepseekCreate _) = True"
| "is_attempt _ = False"

fun is_analysis :: "event \<Rightarrow> bool" where
  "is_analysis MarketContext = True"
| "is_analysis (DeepseekCreate _) = True"
| "is_analysis (LogRetry _ _) = True"
| "is_analysis (Sleep _) = True"
| "is_analysis (CrossValidate _ _) = True"
| "is_analysis (CheckDevExpertise _) = True"
| "is_analysis (VerifyMarketHype _) = True"
| "is_analysis (SimulateTrading _) = True"
| "is_analysis (FusionResults _ _) = True"
| "is_analysis _ = False"

text \<open>
  The back-off schedule in the words of the specification: a failed attempt \<open>k\<close> (counted
  from 0, failing with \<open>es k\<close>) is the request, the log line numbered \<open>k + 1\<close> and a wait
  of \<open>2 ^ k\<close> seconds, in this order.
\<close>

definition failed_round :: "pyval \<Rightarrow> (nat \<Rightarrow> exn) \<Rightarrow> nat \<Rightarrow> event list" where
  "failed_round req es k = [DeepseekCreate req, LogRetry (k + 1) (es k), Sleep (2 ^ k)]"

section \<open>Sample runs\<close>

text \<open>
  A contract as the discovery feed delivers it, and collaborators that all answer: the
  completion parses to grade \<open>A\<close>, each of the three checks knows the value it is meant
  to be asked about, and the fusion step adds the verification result to a dictionary and
  hands anything else back as it is.
\<close>

definition demo_contract :: pyval where
  "demo_contract =
     PDict [(''address'', PStr ''0xabc''), (''symbol'', PStr ''PUMP''),
            (''dev_address'', PStr ''0xdev''), (''liquidity'', PInt 5000)]"

definition demo_env :: env where
  "demo_env =
     \<lparr>gmgn_safety_check = (\<lambda>c. Inr (PBool True)),
      get_market_context = Inr (PStr ''bull''),
      format_template = (\<lambda>c md. Inr ''analyse''),
      deepseek_create = (\<lambda>k req. Inr (PObj 0)),
      parse_response = (\<lambda>resp. Inr (PDict [(''grade'', PStr ''A'')])),
      check_dev_expertise = (\<lambda>a. Inr (if a = PStr ''0xdev'' then PInt 7 else PInt 0)),
      verify_market_hype = (\<lambda>s. Inr (if s = PStr ''PUMP'' then PInt 3 else PInt 0)),
      simulate_trading = (\<lambda>l. Inr (if l = PInt 5000 then PInt 2 else PInt 0)),
      gather_order = [0, 1, 2],
      fusion_results =
        (\<lambda>a v. case a of PDict kvs \<Rightarrow> Inr (PDict (kvs @ [(''verification'', v)])) | _ \<Rightarrow> Inr a),
      generate_visual_report =
        (\<lambda>c a. Inr (PDict [(''chart'', PStr ''chart.png''), (''text'', PStr ''buy'')])),
      input_file = (\<lambda>p. Inr (PObj 1)),
      format_value = (\<lambda>v. case v of PStr s \<Rightarrow> s | _ \<Rightarrow> []),
      tg_chat_id = PStr ''42'',
      send_photo = (\<lambda>chat photo cap mode. Inr (PObj 2))\<rparr>"

text \<open>The completion service is down: every request times out.\<close>

definition outage_env :: env where
  "outage_env = demo_env\<lparr>deepseek_create := (\<lambda>k req. Inl (ServiceError ''timeout''))\<rparr>"

text \<open>The same outage with a fusion step that grades a missing base analysis \<open>C\<close>.\<close>

definition graded_outage_env :: env where
  "graded_outage_env =
     outage_env\<lparr>fusion_results :=
       (\<lambda>a v. Inr (PDict [(''grade'', PStr ''C''), (''verification'', v)]))\<rparr>"

text \<open>The safety filter rejects the contract.\<close>

definition unsafe_env :: env where
  "unsafe_env = demo_env\<lparr>gmgn_safety_check := (\<lambda>c. Inr (PBool False))\<rparr>"

text \<open>The completion parses to grade \<open>B\<close>, which the monitor does not accept.\<close>

definition low_grade_env :: env where
  "low_grade_env = demo_env\<lparr>parse_response := (\<lambda>resp. Inr (PDict [(''grade'', PStr ''B'')]))\<rparr>"

text \<open>An empty store, and one in which the contract's address is marked already.\<close>

definition idle_world :: world where
  "idle_world = \<lparr>store = Map.empty, trace = []\<rparr>"

definition busy_world :: world where
  "busy_world = \<lparr>store = [PStr ''0xabc'' \<mapsto> (PStr ''processing'', 600)], trace = []\<rparr>"

section \<open>Composition and store lemmas\<close>

lemma io_bind_Inl [simp]: "io_bind (Inl e, evs) f = (Inl e, evs)"
  by (simp add: io_bind_def)

lemma io_bind_Inr [simp]: "io_bind (Inr x, evs) f = (fst (f x), evs @ snd (f x))"
  by (simp add: io_bind_def split: prod.splits)

lemma fst_io_bind: "fst (io_bind m f) = (case fst m of Inl e \<Rightarrow> Inl e | Inr x \<Rightarrow> fst (f x))"
  by (cases m) (simp add: io_bind_def split: sum.splits prod.splits)

lemma snd_io_bind: "snd (io_bind m f) = snd m @ (case fst m of Inl e \<Rightarrow> [] | Inr x \<Rightarrow> snd (f x))"
  by (cases m) (simp add: io_bind_def split: sum.splits prod.splits)

lemma range_3: "[0..<3] = [0, 1, 2]"
  by (simp add: upt_rec)

lemma new_events_extend [simp]: "new_events (length (trace w)) (w\<lparr>trace := trace w @ evs\<rparr>) = evs"
  by (simp add: new_events_def)

lemma new_events_same [simp]: "new_events (length (trace w)) w = []"
  by (simp add: new_events_def)

text \<open>
  The three ways a run of \<open>process_contract\<close> can go, by what the contract and the store
  look like when it starts.
\<close>

lemma process_contract_fresh:
  assumes "subscript contract ''address'' = Inr a" and "store w a = None"
  shows "process_contract env contract w =
           (fst (process_body env contract),
            w\<lparr>trace := trace w @ [RedisExists a, RedisSetex a 600 (PStr ''processing'')]
                         @ snd (process_body env contract) @ [RedisDelete a]\<rparr>)"
proof -
  have unmarked: "(store w)(a := None) = store w"
    using assms(2) by (simp add: fun_upd_idem)
  show ?thesis
    using assms unmarked
    by (cases "process_body env contract")
       (simp add: process_contract_def redis_exists_def redis_setex_def redis_delete_def
          cleanup_def try_finally_def emit_def)
qed

lemma process_contract_marked:
  assumes "subscript contract ''address'' = Inr a" and "store w a = Some m"
  shows "process_contract env contract w = (Inr (), w\<lparr>trace := trace w @ [RedisExists a]\<rparr>)"
  using assms by (simp add: process_contract_def redis_exists_def emit_def)

lemma process_contract_no_address:
  assumes "subscript contract ''address'' = Inl e"
  shows "process_contract env contract w = (Inl e, w)"
  using assms by (simp add: process_contract_def)

lemma process_body_first: "\<exists>rest. snd (process_body env contract) = SafetyCheck contract # rest"
  by (simp add: process_body_def call_def snd_io_bind)

lemma demo_address: "subscript demo_contract ''address'' = Inr (PStr ''0xabc'')"
  by (simp add: demo_contract_def)

lemma idle_unmarked: "store idle_world (PStr ''0xabc'') = None"
  by (simp add: idle_world_def)

section \<open>The retry loop of \<open>base_analysis\<close>\<close>

lemma retry_loop_attempts:
  "length (filter is_attempt (snd (retry_loop env prompt ks))) \<le> length ks"
  by (induction ks) (auto simp: ret_def split: sum.splits prod.splits)

lemma base_analysis_attempts: "length (filter is_attempt (snd (base_analysis env contract))) \<le> 3"
proof -
  have "length (filter is_attempt (snd (retry_loop env prompt [0..<3]))) \<le> 3" for prompt
    using retry_loop_attempts [of env prompt "[0..<3]"] by simp
  then show ?thesis
    by (simp add: base_analysis_def snd_io_bind call_def lift_def split: sum.splits)
qed

lemma base_analysis_prompt:
  assumes "get_market_context env = Inr md" and "format_template env contract md = Inr prompt"
  shows "base_analysis env contract =
           (fst (retry_loop env prompt [0, 1, 2]), MarketContext # snd (retry_loop env prompt [0, 1, 2]))"
  using assms by (simp add: base_analysis_def call_def lift_def range_3)

text \<open>
  C4. \<open>base_analysis\<close> asks the completion service at most three times, whatever the
  service and the parser do. When the prompt has been built and the three requests fail,
  each with an exception that \<^verbatim>\<open>except Exception\<close> catches, \<open>base_analysis\<close> has made
  exactly three requests and returns \<^verbatim>\<open>None\<close>; it does not raise.
\<close>

theorem base_analysis_gives_up:
  "length (filter is_attempt (snd (base_analysis env contract))) \<le> 3 \<and>
   (get_market_context env = Inr md \<longrightarrow>
    format_template env contract md = Inr prompt \<longrightarrow>
    deepseek_create env 0 (completion_request prompt) = Inl e0 \<longrightarrow> is_Exception e0 \<longrightarrow>
    deepseek_create env 1 (completion_request prompt) = Inl e1 \<longrightarrow> is_Exception e1 \<longrightarrow>
    deepseek_create env 2 (completion_request prompt) = Inl e2 \<longrightarrow> is_Exception e2 \<longrightarrow>
    fst (base_analysis env contract) = Inr PNone \<and>
    length (filter is_attempt (snd (base_analysis env contract))) = 3)"
proof (intro conjI impI)
  show "length (filter is_attempt (snd (base_analysis env contract))) \<le> 3"
    by (rule base_analysis_attempts)
next
  assume ctx: "get_market_context env = Inr md" "format_template env contract md = Inr prompt"
    and f0: "deepseek_create env 0 (completion_request prompt) = Inl e0" "is_Exception e0"
    and f1: "deepseek_create env 1 (completion_request prompt) = Inl e1" "is_Exception e1"
    and f2: "deepseek_create env 2 (completion_request prompt) = Inl e2" "is_Exception e2"
  have loop: "retry_loop env prompt [0, 1, 2] =
      (Inr PNone,
       [DeepseekCreate (completion_request prompt), LogRetry 1 e0, Sleep 1,
        DeepseekCreate (completion_request prompt), LogRetry 2 e1, Sleep 2,
        DeepseekCreate (completion_request prompt), LogRetry 3 e2, Sleep 4])"
    using f0 f1 f2 by (simp add: attempt_def ret_def)
  show "fst (base_analysis env contract) = Inr PNone"
    unfolding base_analysis_prompt [OF ctx] loop by simp
  show "length (filter is_attempt (snd (base_analysis env contract))) = 3"
    unfolding base_analysis_prompt [OF ctx] loop by simp
qed

theorem base_analysis_gives_up_witness:
  "get_market_context outage_env = Inr (PStr ''bull'') \<and>
   format_template outage_env demo_contract (PStr ''bull'') = Inr ''analyse'' \<and>
   deepseek_create outage_env 0 (completion_request ''analyse'') = Inl (ServiceError ''timeout'') \<and>
   deepseek_create outage_env 1 (completion_request ''analyse'') = Inl (ServiceError ''timeout'') \<and>
   deepseek_create outage_env 2 (completion_request ''analyse'') = Inl (ServiceError ''timeout'') \<and>
   is_Exception (ServiceError ''timeout'') \<and>
   fst (base_analysis outage_env demo_contract) = Inr PNone \<and>
   length (filter is_attempt (snd (base_analysis outage_env demo_contract))) = 3"
  using base_analysis_gives_up [of outage_env demo_contract "PStr ''bull''" "''analyse''"
      "ServiceError ''timeout''" "ServiceError ''timeout''" "ServiceError ''timeout''"]
  by (simp add: outage_env_def demo_env_def)

lemma retry_loop_answered:
  assumes "attempt env prompt k = Inr a"
  shows "retry_loop env prompt (k # rest) = (Inr a, [DeepseekCreate (completion_request prompt)])"
  using assms by simp

text \<open>
  C5. In \<open>base_analysis\<close> the wait after the failed attempt \<open>k\<close> (counted from 0) is
  \<open>2 ^ k\<close> seconds, and it comes after that attempt's log line and before the next
  attempt: when the first \<open>n\<close> attempts fail and the next one, if the range has one left,
  answers, the events of the call are the market-context request, the failed rounds
  \<open>0, \<dots>, n - 1\<close> in order, each ending in its wait, and then the answered request. The
  waits of a run in which all three attempts fail are 1, 2 and 4 seconds.
\<close>

theorem backoff_schedule:
  assumes "get_market_context env = Inr md"
    and "format_template env contract md = Inr prompt"
    and "n \<le> 3"
    and "\<forall>k<n. attempt env prompt k = Inl (es k) \<and> is_Exception (es k)"
    and "n < 3 \<longrightarrow> attempt env prompt n = Inr a"
  shows "snd (base_analysis env contract) =
           MarketContext # concat (map (failed_round (completion_request prompt) es) [0..<n])
             @ (if n < 3 then [DeepseekCreate (completion_request prompt)] else [])"
proof -
  consider "n = 0" | "n = 1" | "n = 2" | "n = 3"
    using assms(3) by linarith
  then have "snd (retry_loop env prompt [0, 1, 2]) =
      concat (map (failed_round (completion_request prompt) es) [0..<n])
        @ (if n < 3 then [DeepseekCreate (completion_request prompt)] else [])"
  proof cases
    case 1
    then show ?thesis using assms(5) by (simp add: retry_loop_answered)
  next
    case 2
    then have "attempt env prompt 0 = Inl (es 0)" "is_Exception (es 0)" "attempt env prompt 1 = Inr a"
      using assms(4,5) by simp_all
    then show ?thesis using 2
      by (simp add: failed_round_def)
  next
    case 3
    then have "attempt env prompt 0 = Inl (es 0)" "is_Exception (es 0)"
      "attempt env prompt 1 = Inl (es 1)" "is_Exception (es 1)" "attempt env prompt 2 = Inr a"
      using assms(4,5) by simp_all
    then show ?thesis using 3
      by (simp add: failed_round_def upt_rec)
  next
    case 4
    then have "attempt env prompt 0 = Inl (es 0)" "is_Exception (es 0)"
      "attempt env prompt 1 = Inl (es 1)" "is_Exception (es 1)"
      "attempt env prompt 2 = Inl (es 2)" "is_Exception (es 2)"
      using assms(4) by simp_all
    then show ?thesis using 4
      by (simp add: failed_round_def upt_rec ret_def numeral_2_eq_2)
  qed
  then show ?thesis
    by (simp add: base_analysis_prompt [OF assms(1,2)])
qed

theorem backoff_schedule_witness:
  "get_market_context outage_env = Inr (PStr ''bull'') \<and>
   format_template outage_env demo_contract (PStr ''bull'') = Inr ''analyse'' \<and>
   attempt outage_env ''analyse'' 0 = Inl (ServiceError ''timeout'') \<and>
   attempt outage_env ''analyse'' 1 = Inl (ServiceError ''timeout'') \<and>
   attempt outage_env ''analyse'' 2 = Inl (ServiceError ''timeout'') \<and>
   is_Exception (ServiceError ''timeout'') \<and>
   snd (base_analysis outage_env demo_contract) =
     [MarketContext,
      DeepseekCreate (completion_request ''analyse''), LogRetry 1 (ServiceError ''timeout''), Sleep 1,
      DeepseekCreate (completion_request ''analyse''), LogRetry 2 (ServiceError ''timeout''), Sleep 2,
      DeepseekCreate (completion_request ''analyse''), LogRetry 3 (ServiceError ''timeout''), Sleep 4]"
proof -
  have ctx: "get_market_context outage_env = Inr (PStr ''bull'')"
    "format_template outage_env demo_contract (PStr ''bull'') = Inr ''analyse''"
    by (simp_all add: outage_env_def demo_env_def)
  have fails: "\<forall>k<3. attempt outage_env ''analyse'' k = Inl ((\<lambda>k. ServiceError ''timeout'') k) \<and>
      is_Exception ((\<lambda>k. ServiceError ''timeout'') k)"
    by (simp add: attempt_def outage_env_def demo_env_def)
  have no_fourth: "(3::nat) < 3 \<longrightarrow> attempt outage_env ''analyse'' 3 = Inr PNone"
    by simp
  have each: "attempt outage_env ''analyse'' k = Inl (ServiceError ''timeout'')" for k
    by (simp add: attempt_def outage_env_def demo_env_def)
  have "snd (base_analysis outage_env demo_contract) =
      MarketContext #
      concat (map (failed_round (completion_request ''analyse'') (\<lambda>k. ServiceError ''timeout''))
                [0..<3])
        @ (if (3::nat) < 3 then [DeepseekCreate (completion_request ''analyse'')] else [])"
    using backoff_schedule [OF ctx _ fails no_fourth] by simp
  then show ?thesis
    using ctx each by (simp add: failed_round_def upt_rec numeral_2_eq_2)
qed

section \<open>The result of \<open>cross_validate\<close>\<close>

lemma gather_returns:
  assumes "\<forall>x\<in>set outs. \<not> isl x"
  shows "gather order outs = Inr (map projr outs)"
proof -
  have "filter (\<lambda>i. i < length outs \<and> isl (outs ! i)) (order @ [0..<length outs]) = []"
    using assms by (auto simp: filter_empty_conv)
  then show ?thesis by (simp add: gather_def)
qed

lemma gather_raises:
  assumes "i < length outs" and "isl (outs ! i)"
  shows "isl (gather order outs)"
proof -
  have "i \<in> set (order @ [0..<length outs])" using assms(1) by simp
  then have "filter (\<lambda>i. i < length outs \<and> isl (outs ! i)) (order @ [0..<length outs]) \<noteq> []"
    using assms by (auto simp: filter_empty_conv)
  then show ?thesis by (auto simp: gather_def split: list.splits)
qed

text \<open>
  C9. When the contract has the three fields and the three checks return,
  \<open>cross_validate\<close> returns the dictionary with exactly the keys \<open>dev_skill\<close>,
  \<open>hype_index\<close> and \<open>volatility\<close>, in this order, holding the result of the developer
  check on the contract's \<open>dev_address\<close>, of the hype check on its \<open>symbol\<close> and of the
  trading simulation on its \<open>liquidity\<close>; the analysis it is given plays no part.
\<close>

theorem cross_validate_shape:
  assumes "subscript contract ''dev_address'' = Inr dev"
    and "subscript contract ''symbol'' = Inr symbol"
    and "subscript contract ''liquidity'' = Inr liquidity"
    and "check_dev_expertise env dev = Inr r0"
    and "verify_market_hype env symbol = Inr r1"
    and "simulate_trading env liquidity = Inr r2"
  shows "cross_validate env contract analysis =
           (Inr (PDict [(''dev_skill'', r0), (''hype_index'', r1), (''volatility'', r2)]),
            [CrossValidate contract analysis, CheckDevExpertise dev, VerifyMarketHype symbol,
             SimulateTrading liquidity])"
  using assms
  by (simp add: cross_validate_def call_def lift_def ret_def gather_returns)

theorem cross_validate_shape_witness:
  "subscript demo_contract ''dev_address'' = Inr (PStr ''0xdev'') \<and>
   subscript demo_contract ''symbol'' = Inr (PStr ''PUMP'') \<and>
   subscript demo_contract ''liquidity'' = Inr (PInt 5000) \<and>
   check_dev_expertise demo_env (PStr ''0xdev'') = Inr (PInt 7) \<and>
   verify_market_hype demo_env (PStr ''PUMP'') = Inr (PInt 3) \<and>
   simulate_trading demo_env (PInt 5000) = Inr (PInt 2) \<and>
   fst (cross_validate demo_env demo_contract PNone) =
     Inr (PDict [(''dev_skill'', PInt 7), (''hype_index'', PInt 3), (''volatility'', PInt 2)])"
proof -
  have fields: "subscript demo_contract ''dev_address'' = Inr (PStr ''0xdev'')"
    "subscript demo_contract ''symbol'' = Inr (PStr ''PUMP'')"
    "subscript demo_contract ''liquidity'' = Inr (PInt 5000)"
    by (simp_all add: demo_contract_def)
  have checks: "check_dev_expertise demo_env (PStr ''0xdev'') = Inr (PInt 7)"
    "verify_market_hype demo_env (PStr ''PUMP'') = Inr (PInt 3)"
    "simulate_trading demo_env (PInt 5000) = Inr (PInt 2)"
    by (simp_all add: demo_env_def)
  show ?thesis
    using cross_validate_shape [OF fields checks, of PNone] fields checks by simp
qed

text \<open>
  Conversely \<open>cross_validate\<close> returns nothing else: a missing field or a check that
  raises makes the whole step raise.
\<close>

lemma cross_validate_returned:
  assumes "fst (cross_validate env contract analysis) = Inr v"
  shows "\<exists>dev symbol liquidity r0 r1 r2.
           subscript contract ''dev_address'' = Inr dev \<and>
           subscript contract ''symbol'' = Inr symbol \<and>
           subscript contract ''liquidity'' = Inr liquidity \<and>
           check_dev_expertise env dev = Inr r0 \<and>
           verify_market_hype env symbol = Inr r1 \<and>
           simulate_trading env liquidity = Inr r2 \<and>
           v = PDict [(''dev_skill'', r0), (''hype_index'', r1), (''volatility'', r2)]"
proof -
  obtain dev where dev: "subscript contract ''dev_address'' = Inr dev"
    using assms
    by (cases "subscript contract ''dev_address''") (simp_all add: cross_validate_def call_def)
  obtain symbol where symbol: "subscript contract ''symbol'' = Inr symbol"
    using assms dev
    by (cases "subscript contract ''symbol''") (simp_all add: cross_validate_def call_def lift_def)
  obtain liquidity where liquidity: "subscript contract ''liquidity'' = Inr liquidity"
    using assms dev symbol
    by (cases "subscript contract ''liquidity''") (simp_all add: cross_validate_def call_def lift_def)
  let ?outs = "[check_dev_expertise env dev, verify_market_hype env symbol,
                simulate_trading env liquidity]"
  have ok: "\<not> isl (gather (gather_order env) ?outs)"
    using assms dev symbol liquidity
    by (cases "gather (gather_order env) ?outs") (simp_all add: cross_validate_def call_def lift_def)
  have returned: "\<not> isl (?outs ! i)" if "i < 3" for i
    using ok gather_raises [of i ?outs "gather_order env"] that by auto
  obtain r0 where r0: "check_dev_expertise env dev = Inr r0"
    using returned [of 0] by (cases "check_dev_expertise env dev") simp_all
  obtain r1 where r1: "verify_market_hype env symbol = Inr r1"
    using returned [of 1] by (cases "verify_market_hype env symbol") simp_all
  obtain r2 where r2: "simulate_trading env liquidity = Inr r2"
    using returned [of 2] by (cases "simulate_trading env liquidity") simp_all
  have "v = PDict [(''dev_skill'', r0), (''hype_index'', r1), (''volatility'', r2)]"
    using assms dev symbol liquidity r0 r1 r2
    by (simp add: cross_validate_def call_def lift_def ret_def gather_returns)
  then show ?thesis
    using dev symbol liquidity r0 r1 r2 by blast
qed

section \<open>The deduplication marker\<close>

text \<open>
  C1. When the contract's address has no record in the store at the start of
  \<open>process_contract\<close>, it has none at the end, whatever the collaborators answer or
  raise: the last command of the run is the deletion of the marker, and the outcome of the
  run is the outcome of the body of the \<^verbatim>\<open>try\<close>, be it a return or an exception of the
  safety check, the analysis, the report generator or the push.
\<close>

theorem marker_released:
  assumes "subscript contract ''address'' = Inr a" and "store w a = None"
  shows "store (snd (process_contract env contract w)) a = None \<and>
         last (trace (snd (process_contract env contract w))) = RedisDelete a \<and>
         fst (process_contract env contract w) = fst (process_body env contract)"
  by (simp add: process_contract_fresh [OF assms] assms(2))

theorem marker_released_witness:
  "subscript demo_contract ''address'' = Inr (PStr ''0xabc'') \<and>
   store idle_world (PStr ''0xabc'') = None \<and>
   fst (process_contract outage_env demo_contract idle_world) = Inl TypeError \<and>
   store (snd (process_contract outage_env demo_contract idle_world)) (PStr ''0xabc'') = None"
proof -
  have body: "fst (process_body outage_env demo_contract) = Inl TypeError"
    by (simp add: process_body_def enhanced_analysis_def base_analysis_def cross_validate_def
        gather_def call_def lift_def ret_def attempt_def range_3
        outage_env_def demo_env_def demo_contract_def)
  show ?thesis
    using marker_released [OF demo_address idle_unmarked, of outage_env]
      demo_address idle_unmarked body
    by simp
qed

text \<open>
  C3. When the contract's address has a record in the store, \<open>process_contract\<close> returns
  at once: the only thing it does is ask the store whether the key exists. The store is
  left as it was, and neither the safety check nor the analysis, the report generator or
  the push is invoked.
\<close>

theorem marked_address_is_skipped:
  assumes "subscript contract ''address'' = Inr a" and "store w a = Some m"
  shows "fst (process_contract env contract w) = Inr () \<and>
         store (snd (process_contract env contract w)) = store w \<and>
         new_events (length (trace w)) (snd (process_contract env contract w)) = [RedisExists a]"
  by (simp add: process_contract_marked [OF assms])

theorem marked_address_is_skipped_witness:
  "subscript demo_contract ''address'' = Inr (PStr ''0xabc'') \<and>
   store busy_world (PStr ''0xabc'') = Some (PStr ''processing'', 600) \<and>
   fst (process_contract demo_env demo_contract busy_world) = Inr () \<and>
   store (snd (process_contract demo_env demo_contract busy_world)) = store busy_world \<and>
   new_events 0 (snd (process_contract demo_env demo_contract busy_world)) =
     [RedisExists (PStr ''0xabc'')]"
proof -
  have marked: "store busy_world (PStr ''0xabc'') = Some (PStr ''processing'', 600)"
    by (simp add: busy_world_def)
  have start: "length (trace busy_world) = 0"
    by (simp add: busy_world_def)
  show ?thesis
    using marked_address_is_skipped [OF demo_address marked, of demo_env] demo_address marked
    by (simp add: start)
qed

text \<open>
  C8. When the contract's address has no record in the store, \<open>process_contract\<close> first
  stores the value \<open>processing\<close> under the address with a time-to-live of 600 seconds, and
  only then runs the body of the \<^verbatim>\<open>try\<close> on that store: the events of a run are the
  existence test, the \<^verbatim>\<open>SETEX\<close>, then everything the safety check, the analysis, the
  report and the push do, and the deletion at the end.
\<close>

theorem marker_set_first:
  assumes "subscript contract ''address'' = Inr a" and "store w a = None"
  shows "process_contract env contract w =
           try_finally (process_body env contract) (cleanup contract)
             (redis_setex a 600 (PStr ''processing'') (snd (redis_exists a w))) \<and>
         store (redis_setex a 600 (PStr ''processing'') (snd (redis_exists a w))) a =
           Some (PStr ''processing'', 600) \<and>
         new_events (length (trace w)) (snd (process_contract env contract w)) =
           [RedisExists a, RedisSetex a 600 (PStr ''processing'')]
             @ snd (process_body env contract) @ [RedisDelete a]"
proof (intro conjI)
  show "process_contract env contract w =
           try_finally (process_body env contract) (cleanup contract)
             (redis_setex a 600 (PStr ''processing'') (snd (redis_exists a w)))"
    using assms by (simp add: process_contract_def redis_exists_def)
  show "store (redis_setex a 600 (PStr ''processing'') (snd (redis_exists a w))) a =
           Some (PStr ''processing'', 600)"
    by (simp add: redis_setex_def redis_exists_def emit_def)
  show "new_events (length (trace w)) (snd (process_contract env contract w)) =
           [RedisExists a, RedisSetex a 600 (PStr ''processing'')]
             @ snd (process_body env contract) @ [RedisDelete a]"
    by (simp add: process_contract_fresh [OF assms])
qed

theorem marker_set_first_witness:
  "subscript demo_contract ''address'' = Inr (PStr ''0xabc'') \<and>
   store idle_world (PStr ''0xabc'') = None \<and>
   take 3 (new_events 0 (snd (process_contract demo_env demo_contract idle_world))) =
     [RedisExists (PStr ''0xabc''), RedisSetex (PStr ''0xabc'') 600 (PStr ''processing''),
      SafetyCheck demo_contract]"
proof -
  have start: "length (trace idle_world) = 0"
    by (simp add: idle_world_def)
  have "new_events (length (trace idle_world))
          (snd (process_contract demo_env demo_contract idle_world)) =
        [RedisExists (PStr ''0xabc''), RedisSetex (PStr ''0xabc'') 600 (PStr ''processing'')]
          @ snd (process_body demo_env demo_contract) @ [RedisDelete (PStr ''0xabc'')]"
    using marker_set_first [OF demo_address idle_unmarked, of demo_env] by blast
  moreover obtain rest where
    "snd (process_body demo_env demo_contract) = SafetyCheck demo_contract # rest"
    using process_body_first [of demo_env demo_contract] by blast
  ultimately show ?thesis
    using demo_address idle_unmarked by (simp add: start)
qed

section \<open>The two filters\<close>

lemma retry_loop_no_push: "filter is_push (snd (retry_loop env prompt ks)) = []"
  by (induction ks) (auto simp: ret_def split: sum.splits prod.splits)

lemma base_analysis_no_push: "filter is_push (snd (base_analysis env contract)) = []"
  by (simp add: base_analysis_def snd_io_bind call_def lift_def retry_loop_no_push
      split: sum.splits)

lemma cross_validate_no_push: "filter is_push (snd (cross_validate env contract analysis)) = []"
  by (simp add: cross_validate_def snd_io_bind call_def lift_def ret_def split: sum.splits)

lemma enhanced_analysis_no_push: "filter is_push (snd (enhanced_analysis env contract)) = []"
  by (simp add: enhanced_analysis_def snd_io_bind call_def base_analysis_no_push
      cross_validate_no_push split: sum.splits)

lemma push_alert_first: "\<exists>rest. snd (push_alert env report) = PushAlert report # rest"
  by (simp add: push_alert_def snd_io_bind call_def)

lemma cross_validate_first:
  "\<exists>rest. snd (cross_validate env contract analysis) = CrossValidate contract analysis # rest"
  by (simp add: cross_validate_def snd_io_bind call_def)

text \<open>The body of the \<^verbatim>\<open>try\<close>, by the answer of the safety check.\<close>

lemma process_body_failed_check:
  assumes "gmgn_safety_check env contract = Inl e"
  shows "process_body env contract = (Inl e, [SafetyCheck contract])"
  using assms by (simp add: process_body_def call_def)

lemma process_body_unsafe:
  assumes "gmgn_safety_check env contract = Inr v" and "\<not> truthy v"
  shows "process_body env contract = (Inr (), [SafetyCheck contract])"
  using assms by (simp add: process_body_def call_def ret_def)

lemma process_body_safe:
  assumes "gmgn_safety_check env contract = Inr s" and "truthy s"
  shows "process_body env contract =
     (case enhanced_analysis env contract of
        (Inl e, evs) \<Rightarrow> (Inl e, SafetyCheck contract # evs)
      | (Inr fused, evs) \<Rightarrow>
          (case subscript fused ''grade'' of
             Inl e \<Rightarrow> (Inl e, SafetyCheck contract # evs)
           | Inr g \<Rightarrow>
               if g \<notin> set investment_grade then (Inr (), SafetyCheck contract # evs)
               else
                 (case generate_visual_report env contract fused of
                    Inl e \<Rightarrow> (Inl e, SafetyCheck contract # evs @ [GenerateVisualReport contract fused])
                  | Inr report \<Rightarrow>
                      (fst (push_alert env report),
                       SafetyCheck contract # evs @ [GenerateVisualReport contract fused]
                         @ snd (push_alert env report)))))"
  using assms
  by (cases "enhanced_analysis env contract")
     (simp add: process_body_def call_def ret_def lift_def split: sum.splits)

lemma process_body_rejected:
  assumes "fst (enhanced_analysis env contract) = Inr fused"
    and "subscript fused ''grade'' = Inr g" and "g \<notin> set investment_grade"
  shows "filter is_push (snd (process_body env contract)) = []"
proof (cases "gmgn_safety_check env contract")
  case (Inl e)
  then show ?thesis by (simp add: process_body_failed_check)
next
  case (Inr s)
  show ?thesis
  proof (cases "truthy s")
    case True
    show ?thesis
      using assms enhanced_analysis_no_push [of env contract]
      by (cases "enhanced_analysis env contract") (simp add: process_body_safe [OF Inr True])
  next
    case False
    show ?thesis by (simp add: process_body_unsafe [OF Inr False])
  qed
qed

text \<open>
  C6. When the safety check of a contract answers false (or anything else Python takes
  for false), a run of \<open>process_contract\<close> produces no push event and no event of the
  analysis stage, whatever the store holds. On a fresh address the run is exactly: the
  existence test, the marker, the safety check, the deletion of the marker; it returns
  \<^verbatim>\<open>None\<close>.
\<close>

theorem unsafe_contract_not_pushed:
  assumes "gmgn_safety_check env contract = Inr v" and "\<not> truthy v"
  shows "filter (\<lambda>ev. is_push ev \<or> is_analysis ev)
           (new_events (length (trace w)) (snd (process_contract env contract w))) = [] \<and>
         (subscript contract ''address'' = Inr a \<longrightarrow> store w a = None \<longrightarrow>
          process_contract env contract w =
            (Inr (), w\<lparr>trace := trace w @ [RedisExists a, RedisSetex a 600 (PStr ''processing''),
                                           SafetyCheck contract, RedisDelete a]\<rparr>))"
proof (intro conjI impI)
  show "filter (\<lambda>ev. is_push ev \<or> is_analysis ev)
           (new_events (length (trace w)) (snd (process_contract env contract w))) = []"
  proof (cases "subscript contract ''address''")
    case (Inl e)
    then show ?thesis by (simp add: process_contract_no_address)
  next
    case (Inr b)
    show ?thesis
    proof (cases "store w b")
      case None
      show ?thesis
        by (simp add: process_contract_fresh [OF Inr None] process_body_unsafe [OF assms])
    next
      case (Some m)
      show ?thesis
        by (simp add: process_contract_marked [OF Inr Some])
    qed
  qed
next
  assume "subscript contract ''address'' = Inr a" and "store w a = None"
  then show "process_contract env contract w =
            (Inr (), w\<lparr>trace := trace w @ [RedisExists a, RedisSetex a 600 (PStr ''processing''),
                                           SafetyCheck contract, RedisDelete a]\<rparr>)"
    by (simp add: process_contract_fresh process_body_unsafe [OF assms])
qed

theorem unsafe_contract_not_pushed_witness:
  "gmgn_safety_check unsafe_env demo_contract = Inr (PBool False) \<and>
   \<not> truthy (PBool False) \<and>
   subscript demo_contract ''address'' = Inr (PStr ''0xabc'') \<and>
   store idle_world (PStr ''0xabc'') = None \<and>
   fst (process_contract unsafe_env demo_contract idle_world) = Inr () \<and>
   new_events 0 (snd (process_contract unsafe_env demo_contract idle_world)) =
     [RedisExists (PStr ''0xabc''), RedisSetex (PStr ''0xabc'') 600 (PStr ''processing''),
      SafetyCheck demo_contract, RedisDelete (PStr ''0xabc'')]"
proof -
  have unsafe: "gmgn_safety_check unsafe_env demo_contract = Inr (PBool False)"
    by (simp add: unsafe_env_def demo_env_def)
  have falsy: "\<not> truthy (PBool False)"
    by simp
  have start: "trace idle_world = []"
    by (simp add: idle_world_def)
  show ?thesis
    using unsafe_contract_not_pushed [OF unsafe falsy, of idle_world "PStr ''0xabc''"]
      unsafe demo_address idle_unmarked
    by (simp add: start new_events_def)
qed

text \<open>
  C7. When the enhanced analysis of a contract returns a result whose \<open>grade\<close> is not one
  of \<open>A+\<close>, \<open>A\<close>, \<open>B+\<close>, a run of \<open>process_contract\<close> produces no push event, whatever the
  store holds and whatever the safety check answers. On a fresh address with a passing
  safety check the run returns \<^verbatim>\<open>None\<close> right after the analysis: its last events are
  those of the analysis and the deletion of the marker.
\<close>

theorem rejected_grade_not_pushed:
  assumes "fst (enhanced_analysis env contract) = Inr fused"
    and "subscript fused ''grade'' = Inr g" and "g \<notin> set investment_grade"
  shows "filter is_push
           (new_events (length (trace w)) (snd (process_contract env contract w))) = [] \<and>
         (subscript contract ''address'' = Inr a \<longrightarrow> store w a = None \<longrightarrow>
          gmgn_safety_check env contract = Inr s \<longrightarrow> truthy s \<longrightarrow>
          process_contract env contract w =
            (Inr (), w\<lparr>trace := trace w @ [RedisExists a, RedisSetex a 600 (PStr ''processing''),
                                           SafetyCheck contract]
                                  @ snd (enhanced_analysis env contract) @ [RedisDelete a]\<rparr>))"
proof (intro conjI impI)
  show "filter is_push
           (new_events (length (trace w)) (snd (process_contract env contract w))) = []"
  proof (cases "subscript contract ''address''")
    case (Inl e)
    then show ?thesis by (simp add: process_contract_no_address)
  next
    case (Inr b)
    show ?thesis
    proof (cases "store w b")
      case None
      show ?thesis
        by (simp add: process_contract_fresh [OF Inr None] process_body_rejected [OF assms])
    next
      case (Some m)
      show ?thesis
        by (simp add: process_contract_marked [OF Inr Some])
    qed
  qed
next
  assume fresh: "subscript contract ''address'' = Inr a" "store w a = None"
    and safe: "gmgn_safety_check env contract = Inr s" "truthy s"
  show "process_contract env contract w =
            (Inr (), w\<lparr>trace := trace w @ [RedisExists a, RedisSetex a 600 (PStr ''processing''),
                                           SafetyCheck contract]
                                  @ snd (enhanced_analysis env contract) @ [RedisDelete a]\<rparr>)"
    using assms
    by (cases "enhanced_analysis env contract")
       (simp add: process_contract_fresh [OF fresh] process_body_safe [OF safe])
qed

theorem rejected_grade_not_pushed_witness:
  "fst (enhanced_analysis low_grade_env demo_contract) =
     Inr (PDict [(''grade'', PStr ''B''),
                 (''verification'',
                  PDict [(''dev_skill'', PInt 7), (''hype_index'', PInt 3), (''volatility'', PInt 2)])]) \<and>
   PStr ''B'' \<notin> set investment_grade \<and>
   gmgn_safety_check low_grade_env demo_contract = Inr (PBool True) \<and>
   fst (process_contract low_grade_env demo_contract idle_world) = Inr () \<and>
   filter is_push (new_events 0 (snd (process_contract low_grade_env demo_contract idle_world))) = []"
proof -
  let ?fused = "PDict [(''grade'', PStr ''B''),
                 (''verification'',
                  PDict [(''dev_skill'', PInt 7), (''hype_index'', PInt 3), (''volatility'', PInt 2)])]"
  have fused: "fst (enhanced_analysis low_grade_env demo_contract) = Inr ?fused"
    by (simp add: enhanced_analysis_def base_analysis_def cross_validate_def gather_def
        call_def lift_def ret_def attempt_def range_3
        low_grade_env_def demo_env_def demo_contract_def)
  have grade: "subscript ?fused ''grade'' = Inr (PStr ''B'')"
    by simp
  have rejected: "PStr ''B'' \<notin> set investment_grade"
    by (simp add: investment_grade_def)
  have safe: "gmgn_safety_check low_grade_env demo_contract = Inr (PBool True)"
    by (simp add: low_grade_env_def demo_env_def)
  have passes: "truthy (PBool True)"
    by simp
  have start: "length (trace idle_world) = 0"
    by (simp add: idle_world_def)
  have run: "filter is_push
      (new_events (length (trace idle_world))
         (snd (process_contract low_grade_env demo_contract idle_world))) = []"
    "process_contract low_grade_env demo_contract idle_world =
       (Inr (), idle_world\<lparr>trace := trace idle_world @
          [RedisExists (PStr ''0xabc''), RedisSetex (PStr ''0xabc'') 600 (PStr ''processing''),
           SafetyCheck demo_contract]
          @ snd (enhanced_analysis low_grade_env demo_contract) @ [RedisDelete (PStr ''0xabc'')]\<rparr>)"
    using rejected_grade_not_pushed [OF fused grade rejected, of idle_world "PStr ''0xabc''" "PBool True"]
      demo_address idle_unmarked safe passes
    by blast+
  show ?thesis
    using fused rejected safe run(1) by (simp add: run(2) start)
qed

section \<open>A missing base analysis\<close>

lemma enhanced_analysis_null:
  assumes "fst (base_analysis env contract) = Inr PNone"
  shows "enhanced_analysis env contract =
     (case cross_validate env contract PNone of
        (Inl e, evs) \<Rightarrow> (Inl e, snd (base_analysis env contract) @ evs)
      | (Inr v, evs) \<Rightarrow>
          (fusion_results env PNone v,
           snd (base_analysis env contract) @ evs @ [FusionResults PNone v]))"
  using assms
  by (cases "base_analysis env contract"; cases "cross_validate env contract PNone")
     (simp add: enhanced_analysis_def call_def split: sum.splits)

lemma outage_base:
  "base_analysis outage_env demo_contract =
      (Inr PNone,
       [MarketContext,
        DeepseekCreate (completion_request ''analyse''), LogRetry 1 (ServiceError ''timeout''), Sleep 1,
        DeepseekCreate (completion_request ''analyse''), LogRetry 2 (ServiceError ''timeout''), Sleep 2,
        DeepseekCreate (completion_request ''analyse''), LogRetry 3 (ServiceError ''timeout''), Sleep 4])"
  by (simp add: base_analysis_def call_def lift_def ret_def attempt_def range_3
      outage_env_def demo_env_def)

lemma outage_body: "fst (process_body outage_env demo_contract) = Inl TypeError"
  by (simp add: process_body_def enhanced_analysis_def base_analysis_def cross_validate_def
      gather_def call_def lift_def ret_def attempt_def range_3
      outage_env_def demo_env_def demo_contract_def)

text \<open>
  C10. A \<^verbatim>\<open>None\<close> from \<open>base_analysis\<close> does not end \<open>enhanced_analysis\<close>:
  \<open>cross_validate\<close> is still invoked, with \<^verbatim>\<open>None\<close> as its second argument; when it
  returns, \<^verbatim>\<open>None\<close> and the verification result are handed to the fusion step, and the
  outcome of the fusion step is the outcome of \<open>enhanced_analysis\<close>. In
  \<open>process_contract\<close> it is the \<open>grade\<close> of that fused result that is looked up and tested
  against the accepted grades.
\<close>

theorem null_analysis_reaches_fusion:
  assumes "fst (base_analysis env contract) = Inr PNone"
  shows "enhanced_analysis env contract =
           (case cross_validate env contract PNone of
              (Inl e, evs) \<Rightarrow> (Inl e, snd (base_analysis env contract) @ evs)
            | (Inr v, evs) \<Rightarrow>
                (fusion_results env PNone v,
                 snd (base_analysis env contract) @ evs @ [FusionResults PNone v])) \<and>
         CrossValidate contract PNone \<in> set (snd (enhanced_analysis env contract)) \<and>
         (gmgn_safety_check env contract = Inr s \<longrightarrow> truthy s \<longrightarrow>
          fst (cross_validate env contract PNone) = Inr v \<longrightarrow>
          fusion_results env PNone v = Inr fused \<longrightarrow>
          FusionResults PNone v \<in> set (snd (enhanced_analysis env contract)) \<and>
          fst (process_body env contract) =
            (case subscript fused ''grade'' of
               Inl e \<Rightarrow> Inl e
             | Inr g \<Rightarrow>
                 if g \<notin> set investment_grade then Inr ()
                 else (case generate_visual_report env contract fused of
                         Inl e \<Rightarrow> Inl e
                       | Inr report \<Rightarrow> fst (push_alert env report))))"
proof (intro conjI impI)
  note enh = enhanced_analysis_null [OF assms]
  show "enhanced_analysis env contract =
           (case cross_validate env contract PNone of
              (Inl e, evs) \<Rightarrow> (Inl e, snd (base_analysis env contract) @ evs)
            | (Inr v, evs) \<Rightarrow>
                (fusion_results env PNone v,
                 snd (base_analysis env contract) @ evs @ [FusionResults PNone v]))"
    by (rule enh)
  obtain rest where "snd (cross_validate env contract PNone) = CrossValidate contract PNone # rest"
    using cross_validate_first by blast
  then show "CrossValidate contract PNone \<in> set (snd (enhanced_analysis env contract))"
    by (cases "cross_validate env contract PNone") (auto simp: enh split: sum.splits)
  assume safe: "gmgn_safety_check env contract = Inr s" "truthy s"
    and v: "fst (cross_validate env contract PNone) = Inr v"
    and fused: "fusion_results env PNone v = Inr fused"
  show "FusionResults PNone v \<in> set (snd (enhanced_analysis env contract))"
    using v by (cases "cross_validate env contract PNone") (simp add: enh)
  show "fst (process_body env contract) =
            (case subscript fused ''grade'' of
               Inl e \<Rightarrow> Inl e
             | Inr g \<Rightarrow>
                 if g \<notin> set investment_grade then Inr ()
                 else (case generate_visual_report env contract fused of
                         Inl e \<Rightarrow> Inl e
                       | Inr report \<Rightarrow> fst (push_alert env report)))"
    using v fused
    by (cases "cross_validate env contract PNone")
       (simp add: process_body_safe [OF safe] enh split: sum.splits)
qed

theorem null_analysis_reaches_fusion_witness:
  "fst (base_analysis outage_env demo_contract) = Inr PNone \<and>
   gmgn_safety_check outage_env demo_contract = Inr (PBool True) \<and>
   fst (cross_validate outage_env demo_contract PNone) =
     Inr (PDict [(''dev_skill'', PInt 7), (''hype_index'', PInt 3), (''volatility'', PInt 2)]) \<and>
   fusion_results outage_env PNone
     (PDict [(''dev_skill'', PInt 7), (''hype_index'', PInt 3), (''volatility'', PInt 2)]) = Inr PNone \<and>
   CrossValidate demo_contract PNone \<in> set (snd (enhanced_analysis outage_env demo_contract)) \<and>
   FusionResults PNone
     (PDict [(''dev_skill'', PInt 7), (''hype_index'', PInt 3), (''volatility'', PInt 2)])
     \<in> set (snd (enhanced_analysis outage_env demo_contract)) \<and>
   fst (process_body outage_env demo_contract) = Inl TypeError"
proof -
  let ?v = "PDict [(''dev_skill'', PInt 7), (''hype_index'', PInt 3), (''volatility'', PInt 2)]"
  have base: "fst (base_analysis outage_env demo_contract) = Inr PNone"
    by (simp add: outage_base)
  have safe: "gmgn_safety_check outage_env demo_contract = Inr (PBool True)"
    by (simp add: outage_env_def demo_env_def)
  have passes: "truthy (PBool True)"
    by simp
  have v: "fst (cross_validate outage_env demo_contract PNone) = Inr ?v"
    by (simp add: cross_validate_def gather_def call_def lift_def ret_def
        outage_env_def demo_env_def demo_contract_def)
  have fused: "fusion_results outage_env PNone ?v = Inr PNone"
    by (simp add: outage_env_def demo_env_def)
  have "CrossValidate demo_contract PNone \<in> set (snd (enhanced_analysis outage_env demo_contract))"
    "FusionResults PNone ?v \<in> set (snd (enhanced_analysis outage_env demo_contract))"
    "fst (process_body outage_env demo_contract) =
       (case subscript PNone ''grade'' of
          Inl e \<Rightarrow> Inl e
        | Inr g \<Rightarrow>
            if g \<notin> set investment_grade then Inr ()
            else (case generate_visual_report outage_env demo_contract PNone of
                    Inl e \<Rightarrow> Inl e
                  | Inr report \<Rightarrow> fst (push_alert outage_env report)))"
    using null_analysis_reaches_fusion [OF base, of "PBool True" ?v PNone] safe passes v fused
    by blast+
  then show ?thesis
    using base safe v fused by simp
qed

text \<open>
  What a run makes of a missing base analysis is not decided in \<open>process_contract\<close>,
  which has no test for \<^verbatim>\<open>None\<close>, but in the fusion step, a parameter of the model. Two
  sample runs with the completion service down show both outcomes. With a fusion step
  that hands the \<^verbatim>\<open>None\<close> on, the lookup \<^verbatim>\<open>analysis['grade']\<close> raises \<^verbatim>\<open>TypeError\<close>.
\<close>

lemma outage_run_raises:
  "fst (base_analysis outage_env demo_contract) = Inr PNone \<and>
   length (filter is_attempt (snd (base_analysis outage_env demo_contract))) = 3 \<and>
   fst (process_contract outage_env demo_contract idle_world) = Inl TypeError"
  by (simp add: outage_base outage_body process_contract_fresh [OF demo_address idle_unmarked])

text \<open>
  In general: on a fresh address with a passing safety check and a base analysis that is
  \<^verbatim>\<open>None\<close>, the run returns normally without a push exactly when \<open>cross_validate\<close> and
  the fusion of \<^verbatim>\<open>None\<close> with its result return and the fused result has a \<open>grade\<close>
  outside the accepted grades. In every other case the run raises (after the cleanup) or
  goes on to the report and the push.
\<close>

lemma null_analysis_outcome:
  assumes "subscript contract ''address'' = Inr a" and "store w a = None"
    and "gmgn_safety_check env contract = Inr s" and "truthy s"
    and "fst (base_analysis env contract) = Inr PNone"
  shows "(fst (process_contract env contract w) = Inr () \<and>
          filter is_push
            (new_events (length (trace w)) (snd (process_contract env contract w))) = []) \<longleftrightarrow>
         (\<exists>v fused g. fst (cross_validate env contract PNone) = Inr v \<and>
            fusion_results env PNone v = Inr fused \<and>
            subscript fused ''grade'' = Inr g \<and> g \<notin> set investment_grade)"
proof -
  note run = process_contract_fresh [OF assms(1,2)]
  note body = process_body_safe [OF assms(3,4)]
  note enh = enhanced_analysis_null [OF assms(5)]
  obtain r evs where cv: "cross_validate env contract PNone = (r, evs)"
    by (cases "cross_validate env contract PNone")
  have quiet: "filter is_push (snd (base_analysis env contract)) = []" "filter is_push evs = []"
    using base_analysis_no_push [of env contract] cross_validate_no_push [of env contract PNone] cv
    by simp_all
  show ?thesis
  proof (cases r)
    case (Inl e)
    then show ?thesis by (simp add: run body enh cv)
  next
    case v: (Inr v)
    show ?thesis
    proof (cases "fusion_results env PNone v")
      case (Inl e)
      then show ?thesis by (simp add: run body enh cv v)
    next
      case fused: (Inr fused)
      show ?thesis
      proof (cases "subscript fused ''grade''")
        case (Inl e)
        then show ?thesis by (simp add: run body enh cv v fused)
      next
        case g: (Inr g)
        show ?thesis
        proof (cases "g \<in> set investment_grade")
          case False
          then show ?thesis by (simp add: run body enh cv v fused g quiet)
        next
          case True
          show ?thesis
          proof (cases "generate_visual_report env contract fused")
            case (Inl e)
            then show ?thesis by (simp add: run body enh cv v fused g True)
          next
            case (Inr report)
            obtain rest where "snd (push_alert env report) = PushAlert report # rest"
              using push_alert_first by blast
            then show ?thesis by (simp add: run body enh cv v fused g True Inr)
          qed
        qed
      qed
    qed
  qed
qed

text \<open>
  With a fusion step that grades a missing base analysis \<open>C\<close>, the same outage ends in
  a normal return without a push.
\<close>

lemma graded_outage_run_returns:
  "subscript demo_contract ''address'' = Inr (PStr ''0xabc'') \<and>
   store idle_world (PStr ''0xabc'') = None \<and>
   gmgn_safety_check graded_outage_env demo_contract = Inr (PBool True) \<and>
   fst (base_analysis graded_outage_env demo_contract) = Inr PNone \<and>
   length (filter is_attempt (snd (base_analysis graded_outage_env demo_contract))) = 3 \<and>
   fst (process_contract graded_outage_env demo_contract idle_world) = Inr () \<and>
   filter is_push
     (new_events 0 (snd (process_contract graded_outage_env demo_contract idle_world))) = []"
proof -
  let ?v = "PDict [(''dev_skill'', PInt 7), (''hype_index'', PInt 3), (''volatility'', PInt 2)]"
  have safe: "gmgn_safety_check graded_outage_env demo_contract = Inr (PBool True)"
    by (simp add: graded_outage_env_def outage_env_def demo_env_def)
  have passes: "truthy (PBool True)"
    by simp
  have base: "base_analysis graded_outage_env demo_contract =
      (Inr PNone,
       [MarketContext,
        DeepseekCreate (completion_request ''analyse''), LogRetry 1 (ServiceError ''timeout''), Sleep 1,
        DeepseekCreate (completion_request ''analyse''), LogRetry 2 (ServiceError ''timeout''), Sleep 2,
        DeepseekCreate (completion_request ''analyse''), LogRetry 3 (ServiceError ''timeout''), Sleep 4])"
    by (simp add: base_analysis_def call_def lift_def ret_def attempt_def range_3
        graded_outage_env_def outage_env_def demo_env_def)
  have null: "fst (base_analysis graded_outage_env demo_contract) = Inr PNone"
    by (simp add: base)
  have v: "fst (cross_validate graded_outage_env demo_contract PNone) = Inr ?v"
    by (simp add: cross_validate_def gather_def call_def lift_def ret_def
        graded_outage_env_def outage_env_def demo_env_def demo_contract_def)
  have fused: "fusion_results graded_outage_env PNone ?v =
      Inr (PDict [(''grade'', PStr ''C''), (''verification'', ?v)])"
    by (simp add: graded_outage_env_def)
  have grade: "subscript (PDict [(''grade'', PStr ''C''), (''verification'', ?v)]) ''grade'' =
      Inr (PStr ''C'')"
    by simp
  have rejected: "PStr ''C'' \<notin> set investment_grade"
    by (simp add: investment_grade_def)
  have start: "length (trace idle_world) = 0"
    by (simp add: idle_world_def)
  have "fst (process_contract graded_outage_env demo_contract idle_world) = Inr () \<and>
        filter is_push
          (new_events (length (trace idle_world))
             (snd (process_contract graded_outage_env demo_contract idle_world))) = []"
    using null_analysis_outcome [OF demo_address idle_unmarked safe passes null]
      v fused grade rejected
    by blast
  then show ?thesis
    using demo_address idle_unmarked safe null by (simp add: start base)
qed

end
